theory Spec2Isabelle
  imports Main "HOL-Library.Stream"
begin

section \<open>Game configuration\<close>

text \<open>
  The constants of the component \<^verbatim>\<open>SnakeGame\<close>. Coordinates, score, level and tick
  interval are JavaScript numbers that only ever hold integers here, so they are
  modelled as \<^typ>\<open>int\<close>.
\<close>

definition GRID_SIZE :: int where
  "GRID_SIZE = 20"

definition INITIAL_SPEED :: int where
  "INITIAL_SPEED = 150"

definition SPEED_INCREASE :: int where
  "SPEED_INCREASE = 10"

definition MIN_SPEED :: int where
  "MIN_SPEED = 50"

datatype Direction = UP | DOWN | LEFT | RIGHT

datatype GameState = Menu | Playing | Paused | GameOver

text \<open>The type \<^verbatim>\<open>Position = { x: number; y: number }\<close>.\<close>

record Position =
  posx :: int
  posy :: int

definition DIRECTIONS :: "Direction \<Rightarrow> Position" where
  "DIRECTIONS d =
     (case d of
        UP \<Rightarrow> \<lparr>posx = 0, posy = - 1\<rparr>
      | DOWN \<Rightarrow> \<lparr>posx = 0, posy = 1\<rparr>
      | LEFT \<Rightarrow> \<lparr>posx = - 1, posy = 0\<rparr>
      | RIGHT \<Rightarrow> \<lparr>posx = 1, posy = 0\<rparr>)"

text \<open>
  The eight \<^verbatim>\<open>useState\<close> cells of the component, gathered in one record. A state
  setter is a record update; one event handler runs against one snapshot of the cells
  and its updates give the next snapshot.
\<close>

record State =
  gameState :: GameState
  snake :: "Position list"
  direction :: Direction
  food :: Position
  score :: int
  highScore :: int
  speed :: int
  level :: int

text \<open>
  The values given to \<^verbatim>\<open>useState\<close>. The high score starts at 0 and is then replaced,
  in the mount effect, by the number saved in local storage when there is one; that
  number is the parameter \<open>saved\<close>.
\<close>

definition initialState :: "int \<Rightarrow> State" where
  "initialState saved =
     \<lparr>gameState = Menu,
      snake = [\<lparr>posx = 10, posy = 10\<rparr>],
      direction = RIGHT,
      food = \<lparr>posx = 15, posy = 15\<rparr>,
      score = 0,
      highScore = saved,
      speed = INITIAL_SPEED,
      level = 1\<rparr>"

section \<open>Food placement and collision\<close>

text \<open>
  \<^verbatim>\<open>generateFood\<close>: a do-while loop that draws a cell and draws again while the cell
  lies on the snake. The random source is a stream \<open>rnd\<close> holding the successive values
  of \<^verbatim>\<open>Math.floor(Math.random() * GRID_SIZE)\<close>; one pass of the loop takes two of them,
  first x and then y. Nothing bounds the number of passes, so the function is partial:
  \<open>None\<close> stands for a loop that never leaves.
\<close>

partial_function (option) generateFood :: "int stream \<Rightarrow> Position list \<Rightarrow> Position option" where
  "generateFood rnd snakePositions =
     (let newFood = \<lparr>posx = shd rnd, posy = shd (stl rnd)\<rparr>
      in if list_ex (\<lambda>segment. posx segment = posx newFood \<and> posy segment = posy newFood)
              snakePositions
         then generateFood (stl (stl rnd)) snakePositions
         else Some newFood)"

definition checkCollision :: "Position \<Rightarrow> Position list \<Rightarrow> bool" where
  "checkCollision head body =
     (if posx head < 0 \<or> posx head \<ge> GRID_SIZE \<or> posy head < 0 \<or> posy head \<ge> GRID_SIZE
      then True
      else list_ex (\<lambda>segment. posx segment = posx head \<and> posy segment = posy head) body)"

section \<open>The simulation step\<close>

text \<open>
  \<^verbatim>\<open>moveSnake\<close>. The head is a copy of the first cell moved by the direction vector.
  On a collision the updater returns the previous snake and only the game state and
  the high score are set. Otherwise the head is put in front; on the food cell the
  score, the food and (when the level changes) level and speed are set, and elsewhere
  the last cell is popped. The result is \<open>None\<close> exactly when the food loop does not
  return.

  An empty snake never occurs in a run. For it the source reads \<^verbatim>\<open>newSnake[0]\<close> as
  undefined, the moved head has NaN coordinates, every comparison with it is false,
  and the head is pushed and popped again: the state is left as it was.
\<close>

definition moveSnake :: "int stream \<Rightarrow> State \<Rightarrow> State option" where
  "moveSnake rnd s =
     (if gameState s \<noteq> Playing then Some s
      else case snake s of
        [] \<Rightarrow> Some s
      | first # _ \<Rightarrow>
          let dir = DIRECTIONS (direction s);
              head = first\<lparr>posx := posx first + posx dir, posy := posy first + posy dir\<rparr>
          in if checkCollision head (snake s)
             then Some (s\<lparr>gameState := GameOver,
                          highScore := (if score s > highScore s then score s
                                        else highScore s)\<rparr>)
             else
               let newSnake = head # snake s
               in if posx head = posx (food s) \<and> posy head = posy (food s)
                  then (case generateFood rnd newSnake of
                          None \<Rightarrow> None
                        | Some newFood \<Rightarrow>
                            let newScore = score s + 1;
                                newLevel = newScore div 5 + 1
                            in Some (s\<lparr>snake := newSnake,
                                        score := newScore,
                                        food := newFood,
                                        level := (if newLevel \<noteq> level s then newLevel
                                                  else level s),
                                        speed := (if newLevel \<noteq> level s
                                                  then max MIN_SPEED
                                                    (INITIAL_SPEED - (newLevel - 1) * SPEED_INCREASE)
                                                  else speed s)\<rparr>))
                  else Some (s\<lparr>snake := butlast newSnake\<rparr>))"

section \<open>Commands\<close>

definition startGame :: "State \<Rightarrow> State" where
  "startGame s = s\<lparr>gameState := Playing\<rparr>"

definition togglePause :: "State \<Rightarrow> State" where
  "togglePause s =
     (if gameState s = Playing then s\<lparr>gameState := Paused\<rparr>
      else if gameState s = Paused then s\<lparr>gameState := Playing\<rparr>
      else s)"

definition resetGame :: "State \<Rightarrow> State" where
  "resetGame s =
     s\<lparr>snake := [\<lparr>posx = 10, posy = 10\<rparr>],
       direction := RIGHT,
       food := \<lparr>posx = 15, posy = 15\<rparr>,
       score := 0,
       speed := INITIAL_SPEED,
       level := 1,
       gameState := Playing\<rparr>"

text \<open>\<^verbatim>\<open>handleKeyPress\<close>, on the \<^verbatim>\<open>code\<close> of the keyboard event.\<close>

definition handleKeyPress :: "string \<Rightarrow> State \<Rightarrow> State" where
  "handleKeyPress code s =
     (if gameState s = Menu \<and> (code = ''Space'' \<or> code = ''Enter'') then startGame s
      else if gameState s = GameOver \<and> code = ''KeyR'' then resetGame s
      else if gameState s = Playing \<or> gameState s = Paused then
        (if code = ''Space'' then togglePause s
         else if code = ''KeyR'' then resetGame s
         else if code = ''ArrowUp'' \<or> code = ''KeyW'' then
           (if direction s \<noteq> DOWN then s\<lparr>direction := UP\<rparr> else s)
         else if code = ''ArrowDown'' \<or> code = ''KeyS'' then
           (if direction s \<noteq> UP then s\<lparr>direction := DOWN\<rparr> else s)
         else if code = ''ArrowLeft'' \<or> code = ''KeyA'' then
           (if direction s \<noteq> RIGHT then s\<lparr>direction := LEFT\<rparr> else s)
         else if code = ''ArrowRight'' \<or> code = ''KeyD'' then
           (if direction s \<noteq> LEFT then s\<lparr>direction := RIGHT\<rparr> else s)
         else s)
      else s)"

section \<open>Runs of the game\<close>

text \<open>
  What can happen to the component: a key goes down, one of the three buttons is
  clicked, or the game loop finds the tick interval elapsed. A button exists only in
  the game states for which it is rendered, so a click elsewhere cannot happen and
  leaves the state alone. The game loop calls \<^verbatim>\<open>moveSnake\<close> only while playing.
\<close>

datatype Event =
  KeyDown string
  | ClickStart
  | ClickPause
  | ClickRestart
  | Tick "int stream"

fun dispatch :: "Event \<Rightarrow> State \<Rightarrow> State option" where
  "dispatch (KeyDown code) s = Some (handleKeyPress code s)"
| "dispatch ClickStart s = Some (if gameState s = Menu then startGame s else s)"
| "dispatch ClickPause s =
     Some (if gameState s = Playing \<or> gameState s = Paused then togglePause s else s)"
| "dispatch ClickRestart s = Some (if gameState s = Menu then s else resetGame s)"
| "dispatch (Tick rnd) s = (if gameState s = Playing then moveSnake rnd s else Some s)"

inductive reachable :: "State \<Rightarrow> bool" where
  reachable_init: "reachable (initialState saved)"
| reachable_step: "reachable s \<Longrightarrow> dispatch e s = Some s' \<Longrightarrow> reachable s'"

text \<open>Several events in a row; \<open>None\<close> when one of them does not return.\<close>

fun run :: "Event list \<Rightarrow> State \<Rightarrow> State option" where
  "run [] s = Some s"
| "run (e # es) s = (case dispatch e s of None \<Rightarrow> None | Some s' \<Rightarrow> run es s')"

section \<open>Vocabulary of the properties\<close>

text \<open>A cell of the 20 by 20 grid.\<close>

definition inGrid :: "Position \<Rightarrow> bool" where
  "inGrid p = (0 \<le> posx p \<and> posx p < GRID_SIZE \<and> 0 \<le> posy p \<and> posy p < GRID_SIZE)"

text \<open>The number of grid cells that a snake covers.\<close>

definition occupied :: "Position list \<Rightarrow> nat" where
  "occupied sn = length (remdups (filter inGrid sn))"

text \<open>The cell that pass number \<open>n\<close> (from 0) of the food loop draws from the source.\<close>

definition draw :: "nat \<Rightarrow> int stream \<Rightarrow> Position" where
  "draw n rnd = \<lparr>posx = snth rnd (2 * n), posy = snth rnd (2 * n + 1)\<rparr>"

text \<open>
  The guards of the branches of \<^verbatim>\<open>moveSnake\<close>: the step from \<open>s\<close> ends the game, or
  it lands on the food.
\<close>

definition terminalCollision :: "State \<Rightarrow> bool" where
  "terminalCollision s =
     (gameState s = Playing \<and>
      (case snake s of
         [] \<Rightarrow> False
       | first # _ \<Rightarrow>
           let dir = DIRECTIONS (direction s);
               head = first\<lparr>posx := posx first + posx dir, posy := posy first + posy dir\<rparr>
           in checkCollision head (snake s)))"

definition foodEaten :: "State \<Rightarrow> bool" where
  "foodEaten s =
     (gameState s = Playing \<and>
      (case snake s of
         [] \<Rightarrow> False
       | first # _ \<Rightarrow>
           let dir = DIRECTIONS (direction s);
               head = first\<lparr>posx := posx first + posx dir, posy := posy first + posy dir\<rparr>
           in \<not> checkCollision head (snake s) \<and>
              posx head = posx (food s) \<and> posy head = posy (food s)))"

section \<open>Cells and the food loop\<close>

lemma Position_eqI: "posx a = posx p \<Longrightarrow> posy a = posy p \<Longrightarrow> a = (p::Position)"
  by (cases a, cases p) simp

lemma Position_copy: "(p::Position)\<lparr>posx := a, posy := b\<rparr> = \<lparr>posx = a, posy = b\<rparr>"
  by (cases p) simp

lemma some_segment_iff:
  "list_ex (\<lambda>segment. posx segment = posx p \<and> posy segment = posy p) xs \<longleftrightarrow>
     (p::Position) \<in> set xs"
  unfolding list_ex_iff
proof
  assume "\<exists>segment\<in>set xs. posx segment = posx p \<and> posy segment = posy p"
  then obtain a where a: "a \<in> set xs" "posx a = posx p" "posy a = posy p"
    by blast
  from a(2,3) have "a = p" by (rule Position_eqI)
  with a(1) show "p \<in> set xs" by simp
next
  assume "p \<in> set xs"
  then show "\<exists>segment\<in>set xs. posx segment = posx p \<and> posy segment = posy p"
    by blast
qed

lemma checkCollision_iff: "checkCollision c body \<longleftrightarrow> \<not> inGrid c \<or> c \<in> set body"
  by (auto simp: checkCollision_def inGrid_def some_segment_iff)

lemma generateFood_free:
  "\<lparr>posx = shd rnd, posy = shd (stl rnd)\<rparr> \<notin> set sn \<Longrightarrow>
     generateFood rnd sn = Some \<lparr>posx = shd rnd, posy = shd (stl rnd)\<rparr>"
  by (subst generateFood.simps) (simp add: some_segment_iff Let_def)

lemma generateFood_again:
  "\<lparr>posx = shd rnd, posy = shd (stl rnd)\<rparr> \<in> set sn \<Longrightarrow>
     generateFood rnd sn = generateFood (stl (stl rnd)) sn"
  by (subst generateFood.simps) (simp add: some_segment_iff Let_def)

lemma draw_0: "draw 0 rnd = \<lparr>posx = shd rnd, posy = shd (stl rnd)\<rparr>"
  by (simp add: draw_def)

lemma draw_Suc: "draw (Suc n) rnd = draw n (stl (stl rnd))"
  by (simp add: draw_def)

text \<open>The loop leaves at the first pass that draws a cell off the snake.\<close>

lemma generateFood_first_free:
  "draw n rnd \<notin> set sn \<Longrightarrow> (\<forall>k<n. draw k rnd \<in> set sn) \<Longrightarrow>
     generateFood rnd sn = Some (draw n rnd)"
proof (induction n arbitrary: rnd)
  case 0
  then show ?case by (simp add: draw_0 generateFood_free)
next
  case (Suc n)
  have occ: "\<lparr>posx = shd rnd, posy = shd (stl rnd)\<rparr> \<in> set sn"
    using Suc.prems(2) [rule_format, of 0] by (simp add: draw_0)
  have "generateFood (stl (stl rnd)) sn = Some (draw n (stl (stl rnd)))"
  proof (rule Suc.IH)
    show "draw n (stl (stl rnd)) \<notin> set sn" using Suc.prems(1) by (simp add: draw_Suc)
    show "\<forall>k<n. draw k (stl (stl rnd)) \<in> set sn"
      using Suc.prems(2) by (auto simp: draw_Suc [symmetric])
  qed
  then show ?case by (simp add: generateFood_again [OF occ] draw_Suc)
qed

text \<open>Whatever the loop returns is such a first free draw.\<close>

lemma generateFood_Some_draw:
  assumes "generateFood rnd sn = Some f"
  shows "\<exists>n. f = draw n rnd \<and> draw n rnd \<notin> set sn \<and> (\<forall>k<n. draw k rnd \<in> set sn)"
proof (rule generateFood.raw_induct
    [where P = "\<lambda>rnd sn f. \<exists>n. f = draw n rnd \<and> draw n rnd \<notin> set sn
                  \<and> (\<forall>k<n. draw k rnd \<in> set sn)", OF _ assms])
  fix gen :: "int stream \<Rightarrow> Position list \<Rightarrow> Position option" and rnd sn f
  assume IH: "\<And>rnd sn f. gen rnd sn = Some f \<Longrightarrow>
      \<exists>n. f = draw n rnd \<and> draw n rnd \<notin> set sn \<and> (\<forall>k<n. draw k rnd \<in> set sn)"
  assume body: "(let newFood = \<lparr>posx = shd rnd, posy = shd (stl rnd)\<rparr>
      in if list_ex (\<lambda>segment. posx segment = posx newFood \<and> posy segment = posy newFood) sn
         then gen (stl (stl rnd)) sn else Some newFood) = Some f"
  show "\<exists>n. f = draw n rnd \<and> draw n rnd \<notin> set sn \<and> (\<forall>k<n. draw k rnd \<in> set sn)"
  proof (cases "draw 0 rnd \<in> set sn")
    case True
    then have "gen (stl (stl rnd)) sn = Some f"
      using body by (simp add: some_segment_iff Let_def draw_0)
    from IH [OF this] obtain n where n: "f = draw n (stl (stl rnd))"
      "draw n (stl (stl rnd)) \<notin> set sn" "\<forall>k<n. draw k (stl (stl rnd)) \<in> set sn"
      by blast
    have "\<forall>k<Suc n. draw k rnd \<in> set sn"
    proof (intro allI impI)
      fix k assume "k < Suc n"
      then show "draw k rnd \<in> set sn"
        using True n(3) by (cases k) (auto simp: draw_Suc)
    qed
    with n(1,2) show ?thesis
      by (intro exI [of _ "Suc n"]) (simp add: draw_Suc)
  next
    case False
    then have "f = draw 0 rnd"
      using body by (simp add: some_segment_iff Let_def draw_0)
    with False show ?thesis by (intro exI [of _ 0]) simp
  qed
qed

lemma generateFood_None_iff:
  "generateFood rnd sn = None \<longleftrightarrow> (\<forall>n. draw n rnd \<in> set sn)"
proof
  assume none: "generateFood rnd sn = None"
  show "\<forall>n. draw n rnd \<in> set sn"
  proof (rule ccontr)
    assume "\<not> (\<forall>n. draw n rnd \<in> set sn)"
    then obtain m where m: "draw m rnd \<notin> set sn" by blast
    define n where "n = (LEAST k. draw k rnd \<notin> set sn)"
    have "draw n rnd \<notin> set sn" unfolding n_def using m by (rule LeastI)
    moreover have "\<forall>k<n. draw k rnd \<in> set sn"
      unfolding n_def using not_less_Least by blast
    ultimately have "generateFood rnd sn = Some (draw n rnd)"
      by (rule generateFood_first_free)
    with none show False by simp
  qed
next
  assume all: "\<forall>n. draw n rnd \<in> set sn"
  show "generateFood rnd sn = None"
  proof (cases "generateFood rnd sn")
    case None
    then show ?thesis .
  next
    case (Some f)
    from generateFood_Some_draw [OF this] all show ?thesis by blast
  qed
qed

text \<open>A snake that covers fewer than 400 grid cells leaves one of them free.\<close>

lemma card_grid: "card {p. inGrid p} = 400"
proof -
  let ?mk = "\<lambda>(a, b). \<lparr>posx = a, posy = b\<rparr>"
  have "{p. inGrid p} = ?mk ` ({0..<20} \<times> {0..<20})"
  proof (intro set_eqI iffI)
    fix p assume "p \<in> {p. inGrid p}"
    then have "(posx p, posy p) \<in> {0..<20} \<times> {0..<20}"
      by (simp add: inGrid_def GRID_SIZE_def)
    moreover have "p = ?mk (posx p, posy p)" by (cases p) simp
    ultimately show "p \<in> ?mk ` ({0..<20} \<times> {0..<20})" by (rule rev_image_eqI)
  next
    fix p assume "p \<in> ?mk ` ({0..<20} \<times> {0..<20})"
    then show "p \<in> {p. inGrid p}" by (auto simp: inGrid_def GRID_SIZE_def)
  qed
  moreover have "inj_on ?mk ({0..<20} \<times> {0..<20})"
    by (auto simp: inj_on_def)
  ultimately show ?thesis by (simp add: card_image)
qed

lemma free_cell_exists:
  assumes "occupied sn < 400"
  shows "\<exists>c. inGrid c \<and> c \<notin> set sn"
proof (rule ccontr)
  assume "\<not> (\<exists>c. inGrid c \<and> c \<notin> set sn)"
  then have "{p. inGrid p} \<subseteq> set (filter inGrid sn)" by auto
  then have "card {p. inGrid p} \<le> card (set (filter inGrid sn))"
    by (intro card_mono) simp_all
  also have "\<dots> = occupied sn"
    by (simp add: occupied_def length_remdups_card_conv)
  finally show False using assms by (simp add: card_grid)
qed

section \<open>What one event does\<close>

text \<open>The three outcomes of \<^verbatim>\<open>moveSnake\<close> while playing, on a snake with a first cell.\<close>

lemma moveSnake_collision:
  assumes "gameState s = Playing" and "snake s = first # rest"
    and "c = \<lparr>posx = posx first + posx (DIRECTIONS (direction s)),
              posy = posy first + posy (DIRECTIONS (direction s))\<rparr>"
    and "checkCollision c (snake s)"
  shows "moveSnake rnd s =
           Some (s\<lparr>gameState := GameOver,
                   highScore := (if score s > highScore s then score s else highScore s)\<rparr>)"
  using assms by (simp add: moveSnake_def Let_def Position_copy)

lemma moveSnake_plain:
  assumes "gameState s = Playing" and "snake s = first # rest"
    and "c = \<lparr>posx = posx first + posx (DIRECTIONS (direction s)),
              posy = posy first + posy (DIRECTIONS (direction s))\<rparr>"
    and "\<not> checkCollision c (snake s)" and "c \<noteq> food s"
  shows "moveSnake rnd s = Some (s\<lparr>snake := c # butlast (snake s)\<rparr>)"
proof -
  have "\<not> (posx c = posx (food s) \<and> posy c = posy (food s))"
    using assms(5) Position_eqI by blast
  then show ?thesis
    using assms(1-4) by (auto simp add: moveSnake_def Let_def Position_copy)
qed

lemma moveSnake_food:
  assumes "gameState s = Playing" and "snake s = first # rest"
    and "c = \<lparr>posx = posx first + posx (DIRECTIONS (direction s)),
              posy = posy first + posy (DIRECTIONS (direction s))\<rparr>"
    and "\<not> checkCollision c (snake s)" and "c = food s"
  shows "moveSnake rnd s =
           (case generateFood rnd (c # snake s) of
              None \<Rightarrow> None
            | Some newFood \<Rightarrow>
                Some (s\<lparr>snake := c # snake s,
                        score := score s + 1,
                        food := newFood,
                        level := (score s + 1) div 5 + 1,
                        speed := (if (score s + 1) div 5 + 1 \<noteq> level s
                                  then max MIN_SPEED
                                    (INITIAL_SPEED - ((score s + 1) div 5 + 1 - 1) * SPEED_INCREASE)
                                  else speed s)\<rparr>))"
proof -
  have "posx c = posx (food s) \<and> posy c = posy (food s)"
    using assms(5) by simp
  then show ?thesis
    using assms(1-4)
    by (simp add: moveSnake_def Let_def Position_copy split: option.splits)
qed

text \<open>Every result of \<^verbatim>\<open>moveSnake\<close> while playing is of one of four shapes.\<close>

lemma moveSnake_cases:
  assumes "gameState s = Playing" and "moveSnake rnd s = Some s'"
  shows "s' = s
       \<or> (terminalCollision s \<and>
          s' = s\<lparr>gameState := GameOver,
                 highScore := (if score s > highScore s then score s else highScore s)\<rparr>)
       \<or> (\<exists>c. inGrid c \<and> c \<notin> set (snake s) \<and> c \<noteq> food s \<and> \<not> terminalCollision s \<and>
              s' = s\<lparr>snake := c # butlast (snake s)\<rparr>)
       \<or> (\<exists>c f. inGrid c \<and> c \<notin> set (snake s) \<and> f \<notin> set (c # snake s) \<and>
              \<not> terminalCollision s \<and> foodEaten s \<and>
              s' = s\<lparr>snake := c # snake s,
                     score := score s + 1,
                     food := f,
                     level := (score s + 1) div 5 + 1,
                     speed := (if (score s + 1) div 5 + 1 \<noteq> level s
                               then max MIN_SPEED
                                 (INITIAL_SPEED - ((score s + 1) div 5 + 1 - 1) * SPEED_INCREASE)
                               else speed s)\<rparr>)"
proof (cases "snake s")
  case Nil
  then show ?thesis using assms by (simp add: moveSnake_def)
next
  case (Cons first rest)
  define c where "c = \<lparr>posx = posx first + posx (DIRECTIONS (direction s)),
                        posy = posy first + posy (DIRECTIONS (direction s))\<rparr>"
  have tc: "terminalCollision s \<longleftrightarrow> checkCollision c (snake s)"
    using assms(1) Cons by (simp add: terminalCollision_def Let_def Position_copy c_def)
  show ?thesis
  proof (cases "checkCollision c (snake s)")
    case True
    from moveSnake_collision [OF assms(1) Cons c_def True, of rnd] assms(2) tc True
    show ?thesis by simp
  next
    case False
    then have free: "inGrid c" "c \<notin> set (snake s)"
      by (simp_all add: checkCollision_iff)
    show ?thesis
    proof (cases "c = food s")
      case neq: False
      from moveSnake_plain [OF assms(1) Cons c_def False neq, of rnd] assms(2)
      have "s' = s\<lparr>snake := c # butlast (snake s)\<rparr>" by simp
      with free neq tc False show ?thesis by blast
    next
      case eq: True
      have "posx c = posx (food s)" "posy c = posy (food s)"
        using eq by simp_all
      then have fe: "foodEaten s"
        using assms(1) Cons False
        by (simp add: foodEaten_def Let_def Position_copy c_def)
      from moveSnake_food [OF assms(1) Cons c_def False eq, of rnd] assms(2)
      obtain f where f: "generateFood rnd (c # snake s) = Some f"
        and s': "s' = s\<lparr>snake := c # snake s, score := score s + 1, food := f,
                     level := (score s + 1) div 5 + 1,
                     speed := (if (score s + 1) div 5 + 1 \<noteq> level s
                               then max MIN_SPEED
                                 (INITIAL_SPEED - ((score s + 1) div 5 + 1 - 1) * SPEED_INCREASE)
                               else speed s)\<rparr>"
        by (auto split: option.splits)
      from generateFood_Some_draw [OF f] have "f \<notin> set (c # snake s)" by blast
      with free tc False fe s' show ?thesis by blast
    qed
  qed
qed

text \<open>Every result of an event is of one of six shapes.\<close>

lemma handleKeyPress_cases:
  "handleKeyPress code s = s
   \<or> (gameState s = Menu \<and> handleKeyPress code s = s\<lparr>gameState := Playing\<rparr>)
   \<or> (gameState s = Playing \<and> handleKeyPress code s = s\<lparr>gameState := Paused\<rparr>)
   \<or> (gameState s = Paused \<and> handleKeyPress code s = s\<lparr>gameState := Playing\<rparr>)
   \<or> (gameState s \<noteq> Menu \<and> handleKeyPress code s = resetGame s)
   \<or> (gameState s \<noteq> Menu \<and> (\<exists>d. handleKeyPress code s = s\<lparr>direction := d\<rparr>))"
proof -
  define ok where "ok t \<longleftrightarrow>
      t = s
    \<or> (gameState s = Menu \<and> t = s\<lparr>gameState := Playing\<rparr>)
    \<or> (gameState s = Playing \<and> t = s\<lparr>gameState := Paused\<rparr>)
    \<or> (gameState s = Paused \<and> t = s\<lparr>gameState := Playing\<rparr>)
    \<or> (gameState s \<noteq> Menu \<and> t = resetGame s)
    \<or> (gameState s \<noteq> Menu \<and> (\<exists>d. t = s\<lparr>direction := d\<rparr>))" for t
  have ok_if: "ok (if c then a else b) = (if c then ok a else ok b)" for c a b
    by simp
  have same: "ok s"
    by (simp add: ok_def)
  have start: "gameState s = Menu \<Longrightarrow> ok (startGame s)"
    by (simp add: ok_def startGame_def)
  have toggle: "gameState s = Playing \<or> gameState s = Paused \<Longrightarrow> ok (togglePause s)"
    by (auto simp: ok_def togglePause_def)
  have reset: "gameState s \<noteq> Menu \<Longrightarrow> ok (resetGame s)"
    by (simp add: ok_def)
  have turn: "gameState s \<noteq> Menu \<Longrightarrow> ok (s\<lparr>direction := d\<rparr>)" for d
    unfolding ok_def by blast
  have "ok (handleKeyPress code s)"
    by (cases "gameState s")
      (simp_all add: handleKeyPress_def ok_if same start toggle reset turn
         split del: if_split cong: if_cong)
  then show ?thesis
    unfolding ok_def .
qed

lemma dispatch_cases:
  assumes "dispatch e s = Some s'"
  shows "s' = s
       \<or> (gameState s = Menu \<and> s' = s\<lparr>gameState := Playing\<rparr>)
       \<or> (gameState s = Playing \<and> s' = s\<lparr>gameState := Paused\<rparr>)
       \<or> (gameState s = Paused \<and> s' = s\<lparr>gameState := Playing\<rparr>)
       \<or> (gameState s \<noteq> Menu \<and> s' = resetGame s)
       \<or> (gameState s \<noteq> Menu \<and> (\<exists>d. s' = s\<lparr>direction := d\<rparr>))
       \<or> (\<exists>rnd. e = Tick rnd \<and> gameState s = Playing \<and> moveSnake rnd s = Some s')"
proof (cases e)
  case (KeyDown code)
  with assms have "s' = handleKeyPress code s" by simp
  with handleKeyPress_cases [of code s] show ?thesis by metis
next
  case ClickStart
  with assms show ?thesis by (auto simp: startGame_def)
next
  case ClickPause
  with assms show ?thesis by (auto simp: togglePause_def)
next
  case ClickRestart
  with assms show ?thesis by auto
next
  case (Tick rnd)
  with assms show ?thesis by (auto split: if_splits)
qed

lemma reachable_run: "reachable s \<Longrightarrow> run es s = Some s' \<Longrightarrow> reachable s'"
proof (induction es arbitrary: s)
  case Nil
  then show ?case by simp
next
  case (Cons e es)
  from Cons.prems(2) obtain t where t: "dispatch e s = Some t" and r: "run es t = Some s'"
    by (auto split: option.splits)
  from Cons.prems(1) t have "reachable t" by (rule reachable_step)
  then show ?case using r by (rule Cons.IH)
qed

lemma moveSnake_terminal:
  assumes "terminalCollision s"
  shows "moveSnake rnd s =
           Some (s\<lparr>gameState := GameOver,
                   highScore := (if score s > highScore s then score s else highScore s)\<rparr>)"
proof (cases "snake s")
  case Nil
  with assms show ?thesis by (simp add: terminalCollision_def)
next
  case (Cons first rest)
  from assms have pl: "gameState s = Playing"
    by (simp add: terminalCollision_def)
  from assms Cons have "checkCollision
      \<lparr>posx = posx first + posx (DIRECTIONS (direction s)),
       posy = posy first + posy (DIRECTIONS (direction s))\<rparr> (snake s)"
    by (simp add: terminalCollision_def Let_def Position_copy)
  with moveSnake_collision [OF pl Cons refl] show ?thesis by simp
qed

lemma moveSnake_eats:
  assumes "foodEaten s"
  shows "moveSnake rnd s =
           (case generateFood rnd (food s # snake s) of
              None \<Rightarrow> None
            | Some newFood \<Rightarrow>
                Some (s\<lparr>snake := food s # snake s,
                        score := score s + 1,
                        food := newFood,
                        level := (score s + 1) div 5 + 1,
                        speed := (if (score s + 1) div 5 + 1 \<noteq> level s
                                  then max MIN_SPEED
                                    (INITIAL_SPEED - ((score s + 1) div 5 + 1 - 1) * SPEED_INCREASE)
                                  else speed s)\<rparr>))"
proof (cases "snake s")
  case Nil
  with assms show ?thesis by (simp add: foodEaten_def)
next
  case (Cons first rest)
  define c where "c = \<lparr>posx = posx first + posx (DIRECTIONS (direction s)),
                        posy = posy first + posy (DIRECTIONS (direction s))\<rparr>"
  from assms have pl: "gameState s = Playing"
    by (simp add: foodEaten_def)
  from assms Cons have fe: "\<not> checkCollision c (snake s) \<and>
      posx c = posx (food s) \<and> posy c = posy (food s)"
    unfolding foodEaten_def c_def by (auto simp: Let_def Position_copy)
  then have nc: "\<not> checkCollision c (snake s)" by simp
  from fe have eq: "c = food s" by (intro Position_eqI) simp_all
  show ?thesis
    unfolding eq [symmetric] by (rule moveSnake_food [OF pl Cons c_def nc eq])
qed

lemma reachable_invariant:
  assumes "reachable s"
    and init: "\<And>saved. P (initialState saved)"
    and reset: "\<And>s. P (resetGame s)"
    and frame: "\<And>s s'. P s \<Longrightarrow> snake s' = snake s \<Longrightarrow> food s' = food s \<Longrightarrow>
        score s' = score s \<Longrightarrow> level s' = level s \<Longrightarrow> speed s' = speed s \<Longrightarrow> P s'"
    and move: "\<And>s c. P s \<Longrightarrow> inGrid c \<Longrightarrow> c \<notin> set (snake s) \<Longrightarrow> c \<noteq> food s \<Longrightarrow>
        P (s\<lparr>snake := c # butlast (snake s)\<rparr>)"
    and eat: "\<And>s c f. P s \<Longrightarrow> inGrid c \<Longrightarrow> c \<notin> set (snake s) \<Longrightarrow>
        f \<notin> set (c # snake s) \<Longrightarrow>
        P (s\<lparr>snake := c # snake s,
              score := score s + 1,
              food := f,
              level := (score s + 1) div 5 + 1,
              speed := (if (score s + 1) div 5 + 1 \<noteq> level s
                        then max MIN_SPEED
                          (INITIAL_SPEED - ((score s + 1) div 5 + 1 - 1) * SPEED_INCREASE)
                        else speed s)\<rparr>)"
  shows "P s"
  using assms(1)
proof (induction rule: reachable.induct)
  case (reachable_init saved)
  show ?case by (rule init)
next
  case (reachable_step s e s')
  note P = reachable_step.IH
  from dispatch_cases [OF reachable_step.hyps(2)]
  consider "s' = s" | g where "s' = s\<lparr>gameState := g\<rparr>" | "s' = resetGame s"
    | d where "s' = s\<lparr>direction := d\<rparr>"
    | rnd where "gameState s = Playing" "moveSnake rnd s = Some s'"
    by blast
  then show ?case
  proof cases
    case 1
    with P show ?thesis by simp
  next
    case 2
    then show ?thesis by (intro frame [OF P]) simp_all
  next
    case 3
    then show ?thesis by (simp add: reset)
  next
    case 4
    then show ?thesis by (intro frame [OF P]) simp_all
  next
    case 5
    from moveSnake_cases [OF 5]
    consider "s' = s" | g h where "s' = s\<lparr>gameState := g, highScore := h\<rparr>"
      | c where "inGrid c" "c \<notin> set (snake s)" "c \<noteq> food s"
          "s' = s\<lparr>snake := c # butlast (snake s)\<rparr>"
      | c f where "inGrid c" "c \<notin> set (snake s)" "f \<notin> set (c # snake s)"
          "s' = s\<lparr>snake := c # snake s, score := score s + 1, food := f,
                 level := (score s + 1) div 5 + 1,
                 speed := (if (score s + 1) div 5 + 1 \<noteq> level s
                           then max MIN_SPEED
                             (INITIAL_SPEED - ((score s + 1) div 5 + 1 - 1) * SPEED_INCREASE)
                           else speed s)\<rparr>"
      by blast
    then show ?thesis
    proof cases
      case 1
      with P show ?thesis by simp
    next
      case 2
      then show ?thesis by (intro frame [OF P]) simp_all
    next
      case 3
      with move [OF P] show ?thesis by simp
    next
      case 4
      with eat [OF P] show ?thesis by simp
    qed
  qed
qed

lemma reachable_Menu:
  assumes "reachable s" and "gameState s = Menu"
  shows "\<exists>saved. s = initialState saved"
  using assms
proof (induction rule: reachable.induct)
  case (reachable_init saved)
  show ?case by blast
next
  case (reachable_step s e s')
  have "s' = s"
  proof (rule ccontr)
    assume ne: "s' \<noteq> s"
    from dispatch_cases [OF reachable_step.hyps(2)] ne reachable_step.prems
    obtain rnd where pl: "gameState s = Playing" and mv: "moveSnake rnd s = Some s'"
      by (auto simp: resetGame_def)
    from moveSnake_cases [OF pl mv] ne reachable_step.prems pl show False
      by auto
  qed
  with reachable_step.IH reachable_step.prems show ?case by simp
qed

section \<open>Two sample runs\<close>

text \<open>
  From the menu: start, turn down, five steps, turn right, four steps. The snake then
  stands left of the food. Five more steps, each placing the next food on the cell
  ahead, bring the score to 5 and the level to 2.
\<close>

lemmas step_defs = handleKeyPress_def startGame_def togglePause_def moveSnake_def
  checkCollision_def DIRECTIONS_def GRID_SIZE_def INITIAL_SPEED_def MIN_SPEED_def
  SPEED_INCREASE_def initialState_def Let_def generateFood_free

lemma reachable_before_food:
  "reachable \<lparr>gameState = Playing, snake = [\<lparr>posx = 14, posy = 15\<rparr>], direction = RIGHT,
      food = \<lparr>posx = 15, posy = 15\<rparr>, score = 0, highScore = 0, speed = 150, level = 1\<rparr>"
proof (rule reachable_run [OF reachable_init [of 0]])
  show "run [KeyDown ''Space'', KeyDown ''ArrowDown'',
             Tick (sconst 0), Tick (sconst 0), Tick (sconst 0), Tick (sconst 0), Tick (sconst 0),
             KeyDown ''ArrowRight'',
             Tick (sconst 0), Tick (sconst 0), Tick (sconst 0), Tick (sconst 0)]
          (initialState 0) =
        Some \<lparr>gameState = Playing, snake = [\<lparr>posx = 14, posy = 15\<rparr>], direction = RIGHT,
          food = \<lparr>posx = 15, posy = 15\<rparr>, score = 0, highScore = 0, speed = 150, level = 1\<rparr>"
    by (simp add: step_defs)
qed

lemma reachable_level_two:
  "reachable \<lparr>gameState = Playing,
      snake = [\<lparr>posx = 19, posy = 15\<rparr>, \<lparr>posx = 18, posy = 15\<rparr>, \<lparr>posx = 17, posy = 15\<rparr>,
               \<lparr>posx = 16, posy = 15\<rparr>, \<lparr>posx = 15, posy = 15\<rparr>, \<lparr>posx = 14, posy = 15\<rparr>],
      direction = RIGHT, food = \<lparr>posx = 3, posy = 4\<rparr>, score = 5, highScore = 0,
      speed = 140, level = 2\<rparr>"
proof (rule reachable_run [OF reachable_before_food])
  show "run [Tick (16 ## 15 ## sconst 0), Tick (17 ## 15 ## sconst 0),
             Tick (18 ## 15 ## sconst 0), Tick (19 ## 15 ## sconst 0),
             Tick (3 ## 4 ## sconst 0)]
          \<lparr>gameState = Playing, snake = [\<lparr>posx = 14, posy = 15\<rparr>], direction = RIGHT,
            food = \<lparr>posx = 15, posy = 15\<rparr>, score = 0, highScore = 0, speed = 150, level = 1\<rparr> =
        Some \<lparr>gameState = Playing,
      snake = [\<lparr>posx = 19, posy = 15\<rparr>, \<lparr>posx = 18, posy = 15\<rparr>, \<lparr>posx = 17, posy = 15\<rparr>,
               \<lparr>posx = 16, posy = 15\<rparr>, \<lparr>posx = 15, posy = 15\<rparr>, \<lparr>posx = 14, posy = 15\<rparr>],
      direction = RIGHT, food = \<lparr>posx = 3, posy = 4\<rparr>, score = 5, highScore = 0,
      speed = 140, level = 2\<rparr>"
    by (simp add: step_defs)
qed

section \<open>The claims\<close>

text \<open>
  C5. A direction key that is the opposite of the current heading (UP against DOWN, LEFT
  against RIGHT) leaves the heading unchanged, in every game state; the whole state
  stays as it was.
\<close>

theorem reverse_key_keeps_heading:
  assumes "(direction s = UP \<and> (code = ''ArrowDown'' \<or> code = ''KeyS''))
         \<or> (direction s = DOWN \<and> (code = ''ArrowUp'' \<or> code = ''KeyW''))
         \<or> (direction s = LEFT \<and> (code = ''ArrowRight'' \<or> code = ''KeyD''))
         \<or> (direction s = RIGHT \<and> (code = ''ArrowLeft'' \<or> code = ''KeyA''))"
  shows "direction (handleKeyPress code s) = direction s \<and> handleKeyPress code s = s"
proof -
  have "handleKeyPress code s = s"
    using assms
    by (elim disjE conjE; cases "gameState s";
        simp add: handleKeyPress_def split del: if_split cong: if_cong)
  then show ?thesis by simp
qed

theorem reverse_key_keeps_heading_witness:
  "direction (startGame (initialState 0)) = RIGHT \<and>
   direction (handleKeyPress ''ArrowLeft'' (startGame (initialState 0))) = RIGHT \<and>
   handleKeyPress ''ArrowLeft'' (startGame (initialState 0)) = startGame (initialState 0)"
  using reverse_key_keeps_heading [of "startGame (initialState 0)" "''ArrowLeft''"]
  by (simp add: startGame_def initialState_def)

text \<open>
  C10. A step that detects a terminal collision returns, and leaves the snake, the food,
  the score, the level, the tick interval and the heading unchanged: the new state is the
  old one with the game state set to GameOver and the high score set to the larger of
  score and high score.
\<close>

theorem collision_keeps_entities:
  assumes "terminalCollision s"
  shows "\<exists>s'. moveSnake rnd s = Some s' \<and>
           s' = s\<lparr>gameState := GameOver,
                  highScore := (if score s > highScore s then score s else highScore s)\<rparr> \<and>
           gameState s' = GameOver \<and> snake s' = snake s \<and> food s' = food s \<and>
           score s' = score s \<and> level s' = level s \<and> speed s' = speed s \<and>
           direction s' = direction s"
  using moveSnake_terminal [OF assms, of rnd] by simp

theorem collision_keeps_entities_witness:
  "terminalCollision
     \<lparr>gameState = Playing, snake = [\<lparr>posx = 19, posy = 10\<rparr>], direction = RIGHT,
      food = \<lparr>posx = 15, posy = 15\<rparr>, score = 3, highScore = 1, speed = 150, level = 1\<rparr> \<and>
   moveSnake (sconst 0)
     \<lparr>gameState = Playing, snake = [\<lparr>posx = 19, posy = 10\<rparr>], direction = RIGHT,
      food = \<lparr>posx = 15, posy = 15\<rparr>, score = 3, highScore = 1, speed = 150, level = 1\<rparr> =
   Some \<lparr>gameState = GameOver, snake = [\<lparr>posx = 19, posy = 10\<rparr>], direction = RIGHT,
      food = \<lparr>posx = 15, posy = 15\<rparr>, score = 3, highScore = 3, speed = 150, level = 1\<rparr>"
proof -
  have tc: "terminalCollision
     \<lparr>gameState = Playing, snake = [\<lparr>posx = 19, posy = 10\<rparr>], direction = RIGHT,
      food = \<lparr>posx = 15, posy = 15\<rparr>, score = 3, highScore = 1, speed = 150, level = 1\<rparr>"
    by (simp add: terminalCollision_def checkCollision_def DIRECTIONS_def GRID_SIZE_def)
  from collision_keeps_entities [OF tc, of "sconst 0"] tc show ?thesis
    by simp
qed

text \<open>
  C9, as stated, fails: nothing bounds the number of passes of the loop. On a source that
  draws the cell (10, 10) for ever, and a snake that covers only that cell, the loop
  never returns.
\<close>

theorem generateFood_can_loop_forever:
  "occupied [\<lparr>posx = 10, posy = 10\<rparr>] < 400 \<and>
   generateFood (sconst 10) [\<lparr>posx = 10, posy = 10\<rparr>] = None"
  by (simp add: generateFood_None_iff draw_def occupied_def inGrid_def GRID_SIZE_def)

text \<open>
  C9, amended. A snake that covers fewer than 400 grid cells leaves a grid cell free.
  The loop returns exactly when some pass draws a cell off the snake; it then returns a
  cell that is not on the snake, and that lies in the grid when every number of the
  source lies in 0..19. When every pass draws a cell of the snake the loop does not
  return.
\<close>

theorem generateFood_returns_free_cell:
  assumes "occupied sn < 400"
  shows "(\<exists>c. inGrid c \<and> c \<notin> set sn) \<and>
         ((\<exists>n. draw n rnd \<notin> set sn) \<longrightarrow>
            (\<exists>f. generateFood rnd sn = Some f \<and> f \<notin> set sn \<and>
                 ((\<forall>i. 0 \<le> snth rnd i \<and> snth rnd i < GRID_SIZE) \<longrightarrow> inGrid f))) \<and>
         ((\<forall>n. draw n rnd \<in> set sn) \<longrightarrow> generateFood rnd sn = None)"
proof (intro conjI impI)
  show "\<exists>c. inGrid c \<and> c \<notin> set sn"
    using assms by (rule free_cell_exists)
next
  assume "\<exists>n. draw n rnd \<notin> set sn"
  then have "generateFood rnd sn \<noteq> None"
    by (simp add: generateFood_None_iff)
  then obtain f where f: "generateFood rnd sn = Some f" by blast
  from generateFood_Some_draw [OF f] obtain n where n: "f = draw n rnd" "f \<notin> set sn"
    by blast
  have "inGrid f" if r: "\<forall>i. 0 \<le> snth rnd i \<and> snth rnd i < GRID_SIZE"
    unfolding inGrid_def n(1) draw_def
    using r [rule_format, of "2 * n"] r [rule_format, of "2 * n + 1"] by simp
  with f n(2) show "\<exists>f. generateFood rnd sn = Some f \<and> f \<notin> set sn \<and>
      ((\<forall>i. 0 \<le> snth rnd i \<and> snth rnd i < GRID_SIZE) \<longrightarrow> inGrid f)"
    by blast
next
  assume "\<forall>n. draw n rnd \<in> set sn"
  then show "generateFood rnd sn = None"
    by (simp add: generateFood_None_iff)
qed

theorem generateFood_returns_free_cell_witness:
  "occupied [\<lparr>posx = 10, posy = 10\<rparr>] < 400 \<and>
   draw 1 (10 ## 10 ## 3 ## 4 ## sconst 0) \<notin> set [\<lparr>posx = 10, posy = 10\<rparr>] \<and>
   (\<forall>i. 0 \<le> snth (10 ## 10 ## 3 ## 4 ## sconst (0::int)) i \<and>
        snth (10 ## 10 ## 3 ## 4 ## sconst 0) i < GRID_SIZE) \<and>
   (\<exists>f. generateFood (10 ## 10 ## 3 ## 4 ## sconst 0) [\<lparr>posx = 10, posy = 10\<rparr>] = Some f \<and>
        f \<notin> set [\<lparr>posx = 10, posy = 10\<rparr>] \<and> inGrid f)"
proof -
  let ?rnd = "10 ## 10 ## 3 ## 4 ## sconst (0::int)"
  let ?sn = "[\<lparr>posx = 10, posy = 10\<rparr>]"
  have occ: "occupied ?sn < 400"
    by (simp add: occupied_def inGrid_def GRID_SIZE_def)
  have free: "draw 1 ?rnd \<notin> set ?sn"
    by (simp add: draw_def numeral_2_eq_2 numeral_3_eq_3)
  have range: "0 \<le> snth ?rnd i \<and> snth ?rnd i < GRID_SIZE" for i
  proof -
    have "snth ?rnd i \<in> sset ?rnd" by (rule snth_sset)
    then show ?thesis by (auto simp: GRID_SIZE_def)
  qed
  from generateFood_returns_free_cell [OF occ, of ?rnd] free range
  have "\<exists>f. generateFood ?rnd ?sn = Some f \<and> f \<notin> set ?sn \<and> inGrid f"
    by blast
  with occ free range show ?thesis by blast
qed

text \<open>
  C1, as stated, fails on the food cell: the step gives a state only when the food loop
  returns. From the reachable state with the snake on (14, 15), heading RIGHT, and the
  food on (15, 15), a source that draws (15, 15) for ever draws the new head each time,
  and the step never gives a state.
\<close>

theorem moveSnake_on_food_can_hang:
  "reachable (\<lparr>gameState = Playing, snake = [\<lparr>posx = 14, posy = 15\<rparr>], direction = RIGHT,
      food = \<lparr>posx = 15, posy = 15\<rparr>, score = 0, highScore = 0, speed = 150, level = 1\<rparr>) \<and>
   moveSnake (sconst 15) (\<lparr>gameState = Playing, snake = [\<lparr>posx = 14, posy = 15\<rparr>], direction = RIGHT,
      food = \<lparr>posx = 15, posy = 15\<rparr>, score = 0, highScore = 0, speed = 150, level = 1\<rparr>) = None"
proof -
  have gen: "generateFood (sconst 15) [\<lparr>posx = 15, posy = 15\<rparr>, \<lparr>posx = 14, posy = 15\<rparr>] = None"
    by (simp add: generateFood_None_iff draw_def)
  have "moveSnake (sconst 15) (\<lparr>gameState = Playing, snake = [\<lparr>posx = 14, posy = 15\<rparr>], direction = RIGHT,
      food = \<lparr>posx = 15, posy = 15\<rparr>, score = 0, highScore = 0, speed = 150, level = 1\<rparr>) = None"
    by (simp add: moveSnake_def checkCollision_def DIRECTIONS_def GRID_SIZE_def gen)
  with reachable_before_food show ?thesis by (rule conjI)
qed

text \<open>
  C1, amended. In a Playing state whose snake has the first cell \<open>first\<close>, one step
  computes the candidate head \<open>c\<close> as \<open>first\<close> moved by one cell: y - 1 for UP, y + 1 for
  DOWN, x - 1 for LEFT, x + 1 for RIGHT. When \<open>c\<close> is outside the 20 by 20 grid or on a
  cell of the snake, the step gives a GameOver state with the snake as it was.
  Otherwise, when \<open>c\<close> is not the food cell, the step gives a Playing state whose snake
  is \<open>c\<close> in front of the old snake without its last cell, of the same length. When \<open>c\<close>
  is the food cell and some pass of the food loop draws a cell off the grown snake, the
  step gives a Playing state whose snake is \<open>c\<close> in front of the whole old snake, one
  cell longer; when every pass draws a cell of the grown snake, the step gives no state.
\<close>

theorem moveSnake_step:
  assumes "gameState s = Playing" and "snake s = first # rest"
    and "c = (case direction s of
                UP \<Rightarrow> \<lparr>posx = posx first, posy = posy first - 1\<rparr>
              | DOWN \<Rightarrow> \<lparr>posx = posx first, posy = posy first + 1\<rparr>
              | LEFT \<Rightarrow> \<lparr>posx = posx first - 1, posy = posy first\<rparr>
              | RIGHT \<Rightarrow> \<lparr>posx = posx first + 1, posy = posy first\<rparr>)"
  shows "if \<not> (0 \<le> posx c \<and> posx c < 20 \<and> 0 \<le> posy c \<and> posy c < 20) \<or> c \<in> set (snake s)
         then \<exists>s'. moveSnake rnd s = Some s' \<and> gameState s' = GameOver \<and>
                snake s' = snake s
         else if c \<noteq> food s
         then \<exists>s'. moveSnake rnd s = Some s' \<and> gameState s' = Playing \<and>
                snake s' = c # butlast (snake s) \<and> length (snake s') = length (snake s)
         else if \<exists>n. draw n rnd \<notin> set (c # snake s)
         then \<exists>s'. moveSnake rnd s = Some s' \<and> gameState s' = Playing \<and>
                snake s' = c # snake s \<and> length (snake s') = length (snake s) + 1
         else moveSnake rnd s = None"
proof -
  have c: "c = \<lparr>posx = posx first + posx (DIRECTIONS (direction s)),
                 posy = posy first + posy (DIRECTIONS (direction s))\<rparr>"
    unfolding assms(3) by (cases "direction s") (simp_all add: DIRECTIONS_def)
  have coll: "checkCollision c (snake s) \<longleftrightarrow>
      \<not> (0 \<le> posx c \<and> posx c < 20 \<and> 0 \<le> posy c \<and> posy c < 20) \<or> c \<in> set (snake s)"
    by (simp add: checkCollision_iff inGrid_def GRID_SIZE_def)
  show ?thesis
  proof (cases "checkCollision c (snake s)")
    case True
    from moveSnake_collision [OF assms(1,2) c True, of rnd] True coll show ?thesis
      by simp
  next
    case False
    show ?thesis
    proof (cases "c = food s")
      case neq: False
      from moveSnake_plain [OF assms(1,2) c False neq, of rnd] False coll neq assms(1,2)
      show ?thesis by simp
    next
      case eq: True
      note mv = moveSnake_food [OF assms(1,2) c False eq, of rnd]
      show ?thesis
      proof (cases "generateFood rnd (c # snake s)")
        case None
        then have "\<not> (\<exists>n. draw n rnd \<notin> set (c # snake s))"
          by (simp add: generateFood_None_iff)
        moreover from mv None have "moveSnake rnd s = None" by simp
        ultimately show ?thesis using False coll eq by simp
      next
        case (Some f)
        then have "\<exists>n. draw n rnd \<notin> set (c # snake s)"
          using generateFood_None_iff [of rnd "c # snake s"] by auto
        moreover from mv Some assms(1)
        have "\<exists>s'. moveSnake rnd s = Some s' \<and> gameState s' = Playing \<and>
            snake s' = c # snake s \<and> length (snake s') = length (snake s) + 1"
          by simp
        ultimately show ?thesis using False coll eq by simp
      qed
    qed
  qed
qed

theorem moveSnake_step_witness:
  "(\<exists>s'. moveSnake (16 ## 15 ## sconst 0) (\<lparr>gameState = Playing, snake = [\<lparr>posx = 14, posy = 15\<rparr>], direction = RIGHT,
      food = \<lparr>posx = 15, posy = 15\<rparr>, score = 0, highScore = 0, speed = 150, level = 1\<rparr>) = Some s' \<and>
      gameState s' = Playing \<and>
      snake s' = [\<lparr>posx = 15, posy = 15\<rparr>, \<lparr>posx = 14, posy = 15\<rparr>] \<and>
      length (snake s') = 2) \<and>
   (\<exists>s'. moveSnake (sconst 0) (\<lparr>gameState = Playing, snake = [\<lparr>posx = 7, posy = 0\<rparr>], direction = UP,
      food = \<lparr>posx = 15, posy = 15\<rparr>, score = 0, highScore = 0, speed = 150, level = 1\<rparr>) = Some s' \<and>
      gameState s' = GameOver \<and> snake s' = [\<lparr>posx = 7, posy = 0\<rparr>]) \<and>
   (\<exists>s'. moveSnake (sconst 0) (\<lparr>gameState = Playing, snake = [\<lparr>posx = 5, posy = 5\<rparr>, \<lparr>posx = 6, posy = 5\<rparr>],
      direction = LEFT, food = \<lparr>posx = 15, posy = 15\<rparr>, score = 1, highScore = 0,
      speed = 150, level = 1\<rparr>) = Some s' \<and>
      gameState s' = Playing \<and>
      snake s' = [\<lparr>posx = 4, posy = 5\<rparr>, \<lparr>posx = 5, posy = 5\<rparr>] \<and>
      length (snake s') = 2) \<and>
   (\<exists>s'. moveSnake (sconst 0) (\<lparr>gameState = Playing,
      snake = [\<lparr>posx = 5, posy = 5\<rparr>, \<lparr>posx = 6, posy = 5\<rparr>, \<lparr>posx = 6, posy = 6\<rparr>,
               \<lparr>posx = 5, posy = 6\<rparr>, \<lparr>posx = 4, posy = 6\<rparr>],
      direction = DOWN, food = \<lparr>posx = 15, posy = 15\<rparr>, score = 4, highScore = 0,
      speed = 150, level = 1\<rparr>) = Some s' \<and>
      gameState s' = GameOver \<and> length (snake s') = 5)"
proof -
  have free: "\<exists>n. draw n (16 ## 15 ## sconst 0)
      \<notin> set [\<lparr>posx = 15, posy = 15\<rparr>, \<lparr>posx = 14, posy = 15\<rparr>]"
    by (rule exI [of _ 0]) (simp add: draw_def)
  have grow: "\<exists>s'. moveSnake (16 ## 15 ## sconst 0) (\<lparr>gameState = Playing, snake = [\<lparr>posx = 14, posy = 15\<rparr>], direction = RIGHT,
      food = \<lparr>posx = 15, posy = 15\<rparr>, score = 0, highScore = 0, speed = 150, level = 1\<rparr>) = Some s' \<and>
      gameState s' = Playing \<and>
      snake s' = [\<lparr>posx = 15, posy = 15\<rparr>, \<lparr>posx = 14, posy = 15\<rparr>] \<and>
      length (snake s') = 2"
    using moveSnake_step [of "\<lparr>gameState = Playing, snake = [\<lparr>posx = 14, posy = 15\<rparr>], direction = RIGHT,
      food = \<lparr>posx = 15, posy = 15\<rparr>, score = 0, highScore = 0, speed = 150, level = 1\<rparr>" "\<lparr>posx = 14, posy = 15\<rparr>" "[]"
        "\<lparr>posx = 15, posy = 15\<rparr>" "16 ## 15 ## sconst 0"] free
    by (simp add: numeral_2_eq_2)
  have wall: "\<exists>s'. moveSnake (sconst 0) (\<lparr>gameState = Playing, snake = [\<lparr>posx = 7, posy = 0\<rparr>], direction = UP,
      food = \<lparr>posx = 15, posy = 15\<rparr>, score = 0, highScore = 0, speed = 150, level = 1\<rparr>) = Some s' \<and>
      gameState s' = GameOver \<and> snake s' = [\<lparr>posx = 7, posy = 0\<rparr>]"
    using moveSnake_step [of "\<lparr>gameState = Playing, snake = [\<lparr>posx = 7, posy = 0\<rparr>], direction = UP,
      food = \<lparr>posx = 15, posy = 15\<rparr>, score = 0, highScore = 0, speed = 150, level = 1\<rparr>" "\<lparr>posx = 7, posy = 0\<rparr>" "[]"
        "\<lparr>posx = 7, posy = - 1\<rparr>" "sconst 0"]
    by simp
  have plain: "\<exists>s'. moveSnake (sconst 0) (\<lparr>gameState = Playing, snake = [\<lparr>posx = 5, posy = 5\<rparr>, \<lparr>posx = 6, posy = 5\<rparr>],
      direction = LEFT, food = \<lparr>posx = 15, posy = 15\<rparr>, score = 1, highScore = 0,
      speed = 150, level = 1\<rparr>) = Some s' \<and>
      gameState s' = Playing \<and>
      snake s' = [\<lparr>posx = 4, posy = 5\<rparr>, \<lparr>posx = 5, posy = 5\<rparr>] \<and>
      length (snake s') = 2"
    using moveSnake_step [of "\<lparr>gameState = Playing, snake = [\<lparr>posx = 5, posy = 5\<rparr>, \<lparr>posx = 6, posy = 5\<rparr>],
      direction = LEFT, food = \<lparr>posx = 15, posy = 15\<rparr>, score = 1, highScore = 0,
      speed = 150, level = 1\<rparr>" "\<lparr>posx = 5, posy = 5\<rparr>" "[\<lparr>posx = 6, posy = 5\<rparr>]"
        "\<lparr>posx = 4, posy = 5\<rparr>" "sconst 0"]
    by (simp add: numeral_2_eq_2)
  have self: "\<exists>s'. moveSnake (sconst 0) (\<lparr>gameState = Playing,
      snake = [\<lparr>posx = 5, posy = 5\<rparr>, \<lparr>posx = 6, posy = 5\<rparr>, \<lparr>posx = 6, posy = 6\<rparr>,
               \<lparr>posx = 5, posy = 6\<rparr>, \<lparr>posx = 4, posy = 6\<rparr>],
      direction = DOWN, food = \<lparr>posx = 15, posy = 15\<rparr>, score = 4, highScore = 0,
      speed = 150, level = 1\<rparr>) = Some s' \<and>
      gameState s' = GameOver \<and> length (snake s') = 5"
    using moveSnake_step [of "\<lparr>gameState = Playing,
      snake = [\<lparr>posx = 5, posy = 5\<rparr>, \<lparr>posx = 6, posy = 5\<rparr>, \<lparr>posx = 6, posy = 6\<rparr>,
               \<lparr>posx = 5, posy = 6\<rparr>, \<lparr>posx = 4, posy = 6\<rparr>],
      direction = DOWN, food = \<lparr>posx = 15, posy = 15\<rparr>, score = 4, highScore = 0,
      speed = 150, level = 1\<rparr>" "\<lparr>posx = 5, posy = 5\<rparr>"
        "[\<lparr>posx = 6, posy = 5\<rparr>, \<lparr>posx = 6, posy = 6\<rparr>, \<lparr>posx = 5, posy = 6\<rparr>,
          \<lparr>posx = 4, posy = 6\<rparr>]"
        "\<lparr>posx = 5, posy = 6\<rparr>" "sconst 0"]
    by auto
  from grow wall plain self show ?thesis
    by (intro conjI)
qed

text \<open>
  C2. The only reachable Menu states are the initial ones. There the start command (the
  Space key, the Enter key or the Start button) gives a Playing state with the
  one-cell snake at (10, 10), heading RIGHT, score 0, level 1, tick interval 150 and the
  food on (15, 15), a cell off the snake.
\<close>

theorem start_from_menu:
  assumes "reachable s" and "gameState s = Menu"
    and "e = KeyDown ''Space'' \<or> e = KeyDown ''Enter'' \<or> e = ClickStart"
  shows "\<exists>s'. dispatch e s = Some s' \<and> s' = startGame s \<and> gameState s' = Playing \<and>
           snake s' = [\<lparr>posx = 10, posy = 10\<rparr>] \<and> direction s' = RIGHT \<and>
           score s' = 0 \<and> level s' = 1 \<and> speed s' = 150 \<and> speed s' = INITIAL_SPEED \<and>
           food s' = \<lparr>posx = 15, posy = 15\<rparr> \<and> food s' \<notin> set (snake s')"
proof -
  from reachable_Menu [OF assms(1,2)] obtain saved where s: "s = initialState saved" ..
  have d: "dispatch e s = Some (startGame s)"
    using assms(2,3) by (elim disjE; simp add: handleKeyPress_def)
  show ?thesis
    using d by (simp add: s startGame_def initialState_def INITIAL_SPEED_def)
qed

theorem start_from_menu_witness:
  "reachable (initialState 7) \<and> gameState (initialState 7) = Menu \<and>
   (\<exists>s'. dispatch (KeyDown ''Enter'') (initialState 7) = Some s' \<and>
         s' = startGame (initialState 7) \<and> gameState s' = Playing \<and>
         snake s' = [\<lparr>posx = 10, posy = 10\<rparr>] \<and> direction s' = RIGHT \<and>
         score s' = 0 \<and> level s' = 1 \<and> speed s' = 150 \<and> speed s' = INITIAL_SPEED \<and>
         food s' = \<lparr>posx = 15, posy = 15\<rparr> \<and> food s' \<notin> set (snake s'))"
proof -
  have r: "reachable (initialState 7)" by (rule reachable_init)
  have m: "gameState (initialState 7) = Menu" by (simp add: initialState_def)
  have e: "KeyDown ''Enter'' = KeyDown ''Space'' \<or> KeyDown ''Enter'' = KeyDown ''Enter'' \<or>
      KeyDown ''Enter'' = ClickStart"
    by simp
  show ?thesis
    by (rule conjI [OF r conjI [OF m start_from_menu [OF r m e]]])
qed

text \<open>
  C3. In every state reachable from an initial state by key presses, button clicks and
  simulation steps, every cell of the snake has both coordinates in 0..19.
\<close>

theorem snake_within_grid:
  assumes "reachable s"
  shows "\<forall>c\<in>set (snake s). 0 \<le> posx c \<and> posx c < 20 \<and> 0 \<le> posy c \<and> posy c < 20"
proof -
  have "\<forall>c\<in>set (snake s). inGrid c"
    using assms
  proof (rule reachable_invariant)
    show "\<forall>c\<in>set (snake (initialState saved)). inGrid c" for saved
      by (simp add: initialState_def inGrid_def GRID_SIZE_def)
    show "\<forall>c\<in>set (snake (resetGame t)). inGrid c" for t
      by (simp add: resetGame_def inGrid_def GRID_SIZE_def)
    show "\<forall>c\<in>set (snake t'). inGrid c"
      if "\<forall>c\<in>set (snake t). inGrid c" "snake t' = snake t" for t t' :: State
      using that by simp
    show "\<forall>c\<in>set (snake (t\<lparr>snake := c # butlast (snake t)\<rparr>)). inGrid c"
      if "\<forall>c\<in>set (snake t). inGrid c" "inGrid c" for t c
      using that by (auto dest: in_set_butlastD)
    show "\<forall>c\<in>set (snake (t\<lparr>snake := c # snake t, score := a, food := f,
        level := l, speed := v\<rparr>)). inGrid c"
      if "\<forall>c\<in>set (snake t). inGrid c" "inGrid c" for t c f a l v
      using that by simp
  qed
  then show ?thesis by (simp add: inGrid_def GRID_SIZE_def)
qed

theorem snake_within_grid_witness:
  "reachable (\<lparr>gameState = Playing,
      snake = [\<lparr>posx = 19, posy = 15\<rparr>, \<lparr>posx = 18, posy = 15\<rparr>, \<lparr>posx = 17, posy = 15\<rparr>,
               \<lparr>posx = 16, posy = 15\<rparr>, \<lparr>posx = 15, posy = 15\<rparr>, \<lparr>posx = 14, posy = 15\<rparr>],
      direction = RIGHT, food = \<lparr>posx = 3, posy = 4\<rparr>, score = 5, highScore = 0,
      speed = 140, level = 2\<rparr>) \<and>
   last (snake (\<lparr>gameState = Playing,
      snake = [\<lparr>posx = 19, posy = 15\<rparr>, \<lparr>posx = 18, posy = 15\<rparr>, \<lparr>posx = 17, posy = 15\<rparr>,
               \<lparr>posx = 16, posy = 15\<rparr>, \<lparr>posx = 15, posy = 15\<rparr>, \<lparr>posx = 14, posy = 15\<rparr>],
      direction = RIGHT, food = \<lparr>posx = 3, posy = 4\<rparr>, score = 5, highScore = 0,
      speed = 140, level = 2\<rparr>)) \<in> set (snake (\<lparr>gameState = Playing,
      snake = [\<lparr>posx = 19, posy = 15\<rparr>, \<lparr>posx = 18, posy = 15\<rparr>, \<lparr>posx = 17, posy = 15\<rparr>,
               \<lparr>posx = 16, posy = 15\<rparr>, \<lparr>posx = 15, posy = 15\<rparr>, \<lparr>posx = 14, posy = 15\<rparr>],
      direction = RIGHT, food = \<lparr>posx = 3, posy = 4\<rparr>, score = 5, highScore = 0,
      speed = 140, level = 2\<rparr>)) \<and>
   0 \<le> posx (last (snake (\<lparr>gameState = Playing,
      snake = [\<lparr>posx = 19, posy = 15\<rparr>, \<lparr>posx = 18, posy = 15\<rparr>, \<lparr>posx = 17, posy = 15\<rparr>,
               \<lparr>posx = 16, posy = 15\<rparr>, \<lparr>posx = 15, posy = 15\<rparr>, \<lparr>posx = 14, posy = 15\<rparr>],
      direction = RIGHT, food = \<lparr>posx = 3, posy = 4\<rparr>, score = 5, highScore = 0,
      speed = 140, level = 2\<rparr>))) \<and> posx (last (snake (\<lparr>gameState = Playing,
      snake = [\<lparr>posx = 19, posy = 15\<rparr>, \<lparr>posx = 18, posy = 15\<rparr>, \<lparr>posx = 17, posy = 15\<rparr>,
               \<lparr>posx = 16, posy = 15\<rparr>, \<lparr>posx = 15, posy = 15\<rparr>, \<lparr>posx = 14, posy = 15\<rparr>],
      direction = RIGHT, food = \<lparr>posx = 3, posy = 4\<rparr>, score = 5, highScore = 0,
      speed = 140, level = 2\<rparr>))) < 20 \<and>
   0 \<le> posy (last (snake (\<lparr>gameState = Playing,
      snake = [\<lparr>posx = 19, posy = 15\<rparr>, \<lparr>posx = 18, posy = 15\<rparr>, \<lparr>posx = 17, posy = 15\<rparr>,
               \<lparr>posx = 16, posy = 15\<rparr>, \<lparr>posx = 15, posy = 15\<rparr>, \<lparr>posx = 14, posy = 15\<rparr>],
      direction = RIGHT, food = \<lparr>posx = 3, posy = 4\<rparr>, score = 5, highScore = 0,
      speed = 140, level = 2\<rparr>))) \<and> posy (last (snake (\<lparr>gameState = Playing,
      snake = [\<lparr>posx = 19, posy = 15\<rparr>, \<lparr>posx = 18, posy = 15\<rparr>, \<lparr>posx = 17, posy = 15\<rparr>,
               \<lparr>posx = 16, posy = 15\<rparr>, \<lparr>posx = 15, posy = 15\<rparr>, \<lparr>posx = 14, posy = 15\<rparr>],
      direction = RIGHT, food = \<lparr>posx = 3, posy = 4\<rparr>, score = 5, highScore = 0,
      speed = 140, level = 2\<rparr>))) < 20"
proof -
  have m: "last (snake (\<lparr>gameState = Playing,
      snake = [\<lparr>posx = 19, posy = 15\<rparr>, \<lparr>posx = 18, posy = 15\<rparr>, \<lparr>posx = 17, posy = 15\<rparr>,
               \<lparr>posx = 16, posy = 15\<rparr>, \<lparr>posx = 15, posy = 15\<rparr>, \<lparr>posx = 14, posy = 15\<rparr>],
      direction = RIGHT, food = \<lparr>posx = 3, posy = 4\<rparr>, score = 5, highScore = 0,
      speed = 140, level = 2\<rparr>)) \<in> set (snake (\<lparr>gameState = Playing,
      snake = [\<lparr>posx = 19, posy = 15\<rparr>, \<lparr>posx = 18, posy = 15\<rparr>, \<lparr>posx = 17, posy = 15\<rparr>,
               \<lparr>posx = 16, posy = 15\<rparr>, \<lparr>posx = 15, posy = 15\<rparr>, \<lparr>posx = 14, posy = 15\<rparr>],
      direction = RIGHT, food = \<lparr>posx = 3, posy = 4\<rparr>, score = 5, highScore = 0,
      speed = 140, level = 2\<rparr>))"
    by simp
  note b = bspec [OF snake_within_grid [OF reachable_level_two] m]
  show ?thesis
    by (rule conjI [OF reachable_level_two conjI [OF m b]])
qed

text \<open>
  C4. In every reachable state whose game state is Playing or Paused, the food cell is
  not a cell of the snake.
\<close>

theorem food_off_snake:
  assumes "reachable s" and "gameState s = Playing \<or> gameState s = Paused"
  shows "\<forall>c\<in>set (snake s). food s \<noteq> c"
proof -
  have "food s \<notin> set (snake s)"
    using assms(1)
  proof (rule reachable_invariant)
    show "food (initialState saved) \<notin> set (snake (initialState saved))" for saved
      by (simp add: initialState_def)
    show "food (resetGame t) \<notin> set (snake (resetGame t))" for t
      by (simp add: resetGame_def)
    show "food t' \<notin> set (snake t')"
      if "food t \<notin> set (snake t)" "snake t' = snake t" "food t' = food t" for t t' :: State
      using that by simp
    show "food (t\<lparr>snake := c # butlast (snake t)\<rparr>)
        \<notin> set (snake (t\<lparr>snake := c # butlast (snake t)\<rparr>))"
      if "food t \<notin> set (snake t)" "c \<noteq> food t" for t c
      using that by (auto dest: in_set_butlastD)
    show "food (t\<lparr>snake := c # snake t, score := a, food := f, level := l, speed := v\<rparr>)
        \<notin> set (snake (t\<lparr>snake := c # snake t, score := a, food := f,
              level := l, speed := v\<rparr>))"
      if "f \<notin> set (c # snake t)" for t c f a l v
      using that by simp
  qed
  then show ?thesis by blast
qed

theorem food_off_snake_witness:
  "reachable (\<lparr>gameState = Playing,
      snake = [\<lparr>posx = 19, posy = 15\<rparr>, \<lparr>posx = 18, posy = 15\<rparr>, \<lparr>posx = 17, posy = 15\<rparr>,
               \<lparr>posx = 16, posy = 15\<rparr>, \<lparr>posx = 15, posy = 15\<rparr>, \<lparr>posx = 14, posy = 15\<rparr>],
      direction = RIGHT, food = \<lparr>posx = 3, posy = 4\<rparr>, score = 5, highScore = 0,
      speed = 140, level = 2\<rparr>) \<and>
   gameState (\<lparr>gameState = Playing,
      snake = [\<lparr>posx = 19, posy = 15\<rparr>, \<lparr>posx = 18, posy = 15\<rparr>, \<lparr>posx = 17, posy = 15\<rparr>,
               \<lparr>posx = 16, posy = 15\<rparr>, \<lparr>posx = 15, posy = 15\<rparr>, \<lparr>posx = 14, posy = 15\<rparr>],
      direction = RIGHT, food = \<lparr>posx = 3, posy = 4\<rparr>, score = 5, highScore = 0,
      speed = 140, level = 2\<rparr>) = Playing \<and>
   last (snake (\<lparr>gameState = Playing,
      snake = [\<lparr>posx = 19, posy = 15\<rparr>, \<lparr>posx = 18, posy = 15\<rparr>, \<lparr>posx = 17, posy = 15\<rparr>,
               \<lparr>posx = 16, posy = 15\<rparr>, \<lparr>posx = 15, posy = 15\<rparr>, \<lparr>posx = 14, posy = 15\<rparr>],
      direction = RIGHT, food = \<lparr>posx = 3, posy = 4\<rparr>, score = 5, highScore = 0,
      speed = 140, level = 2\<rparr>)) \<in> set (snake (\<lparr>gameState = Playing,
      snake = [\<lparr>posx = 19, posy = 15\<rparr>, \<lparr>posx = 18, posy = 15\<rparr>, \<lparr>posx = 17, posy = 15\<rparr>,
               \<lparr>posx = 16, posy = 15\<rparr>, \<lparr>posx = 15, posy = 15\<rparr>, \<lparr>posx = 14, posy = 15\<rparr>],
      direction = RIGHT, food = \<lparr>posx = 3, posy = 4\<rparr>, score = 5, highScore = 0,
      speed = 140, level = 2\<rparr>)) \<and>
   food (\<lparr>gameState = Playing,
      snake = [\<lparr>posx = 19, posy = 15\<rparr>, \<lparr>posx = 18, posy = 15\<rparr>, \<lparr>posx = 17, posy = 15\<rparr>,
               \<lparr>posx = 16, posy = 15\<rparr>, \<lparr>posx = 15, posy = 15\<rparr>, \<lparr>posx = 14, posy = 15\<rparr>],
      direction = RIGHT, food = \<lparr>posx = 3, posy = 4\<rparr>, score = 5, highScore = 0,
      speed = 140, level = 2\<rparr>) \<noteq> last (snake (\<lparr>gameState = Playing,
      snake = [\<lparr>posx = 19, posy = 15\<rparr>, \<lparr>posx = 18, posy = 15\<rparr>, \<lparr>posx = 17, posy = 15\<rparr>,
               \<lparr>posx = 16, posy = 15\<rparr>, \<lparr>posx = 15, posy = 15\<rparr>, \<lparr>posx = 14, posy = 15\<rparr>],
      direction = RIGHT, food = \<lparr>posx = 3, posy = 4\<rparr>, score = 5, highScore = 0,
      speed = 140, level = 2\<rparr>))"
proof -
  have g: "gameState (\<lparr>gameState = Playing,
      snake = [\<lparr>posx = 19, posy = 15\<rparr>, \<lparr>posx = 18, posy = 15\<rparr>, \<lparr>posx = 17, posy = 15\<rparr>,
               \<lparr>posx = 16, posy = 15\<rparr>, \<lparr>posx = 15, posy = 15\<rparr>, \<lparr>posx = 14, posy = 15\<rparr>],
      direction = RIGHT, food = \<lparr>posx = 3, posy = 4\<rparr>, score = 5, highScore = 0,
      speed = 140, level = 2\<rparr>) = Playing"
    by simp
  have m: "last (snake (\<lparr>gameState = Playing,
      snake = [\<lparr>posx = 19, posy = 15\<rparr>, \<lparr>posx = 18, posy = 15\<rparr>, \<lparr>posx = 17, posy = 15\<rparr>,
               \<lparr>posx = 16, posy = 15\<rparr>, \<lparr>posx = 15, posy = 15\<rparr>, \<lparr>posx = 14, posy = 15\<rparr>],
      direction = RIGHT, food = \<lparr>posx = 3, posy = 4\<rparr>, score = 5, highScore = 0,
      speed = 140, level = 2\<rparr>)) \<in> set (snake (\<lparr>gameState = Playing,
      snake = [\<lparr>posx = 19, posy = 15\<rparr>, \<lparr>posx = 18, posy = 15\<rparr>, \<lparr>posx = 17, posy = 15\<rparr>,
               \<lparr>posx = 16, posy = 15\<rparr>, \<lparr>posx = 15, posy = 15\<rparr>, \<lparr>posx = 14, posy = 15\<rparr>],
      direction = RIGHT, food = \<lparr>posx = 3, posy = 4\<rparr>, score = 5, highScore = 0,
      speed = 140, level = 2\<rparr>))"
    by simp
  note b = bspec [OF food_off_snake [OF reachable_level_two disjI1 [OF g]] m]
  show ?thesis
    by (rule conjI [OF reachable_level_two conjI [OF g conjI [OF m b]]])
qed

text \<open>
  C6. In every reachable state the level is the score divided by 5, rounded down, plus 1.
  A step that eats the food returns as soon as the food loop does, and its result has
  the score of before plus exactly 1.
\<close>

theorem level_follows_score:
  assumes "reachable s"
  shows "level s = score s div 5 + 1 \<and>
         (foodEaten s \<longrightarrow>
            (\<forall>f. generateFood rnd (food s # snake s) = Some f \<longrightarrow>
               (\<exists>s'. moveSnake rnd s = Some s')) \<and>
            (\<forall>s'. moveSnake rnd s = Some s' \<longrightarrow> score s' = score s + 1))"
proof (intro conjI impI)
  show "level s = score s div 5 + 1"
    using assms
  proof (rule reachable_invariant)
    show "level (initialState saved) = score (initialState saved) div 5 + 1" for saved
      by (simp add: initialState_def)
    show "level (resetGame t) = score (resetGame t) div 5 + 1" for t
      by (simp add: resetGame_def)
    show "level t' = score t' div 5 + 1"
      if "level t = score t div 5 + 1" "score t' = score t" "level t' = level t"
      for t t' :: State
      using that by simp
    show "level (t\<lparr>snake := sn\<rparr>) = score (t\<lparr>snake := sn\<rparr>) div 5 + 1"
      if "level t = score t div 5 + 1" for t :: State and sn
      using that by simp
    show "level (t\<lparr>snake := sn, score := score t + 1, food := f,
            level := (score t + 1) div 5 + 1, speed := v\<rparr>)
        = score (t\<lparr>snake := sn, score := score t + 1, food := f,
            level := (score t + 1) div 5 + 1, speed := v\<rparr>) div 5 + 1"
      for t :: State and sn f v
      by simp
  qed
next
  assume "foodEaten s"
  note mv = moveSnake_eats [OF this, of rnd]
  show "\<forall>f. generateFood rnd (food s # snake s) = Some f \<longrightarrow> (\<exists>s'. moveSnake rnd s = Some s')"
    unfolding mv by simp
  show "\<forall>s'. moveSnake rnd s = Some s' \<longrightarrow> score s' = score s + 1"
    unfolding mv by (auto split: option.splits)
qed

theorem level_follows_score_witness:
  "reachable (\<lparr>gameState = Playing, snake = [\<lparr>posx = 14, posy = 15\<rparr>], direction = RIGHT,
      food = \<lparr>posx = 15, posy = 15\<rparr>, score = 0, highScore = 0, speed = 150, level = 1\<rparr>) \<and>
   level (\<lparr>gameState = Playing, snake = [\<lparr>posx = 14, posy = 15\<rparr>], direction = RIGHT,
      food = \<lparr>posx = 15, posy = 15\<rparr>, score = 0, highScore = 0, speed = 150, level = 1\<rparr>) = score (\<lparr>gameState = Playing, snake = [\<lparr>posx = 14, posy = 15\<rparr>], direction = RIGHT,
      food = \<lparr>posx = 15, posy = 15\<rparr>, score = 0, highScore = 0, speed = 150, level = 1\<rparr>) div 5 + 1 \<and>
   foodEaten (\<lparr>gameState = Playing, snake = [\<lparr>posx = 14, posy = 15\<rparr>], direction = RIGHT,
      food = \<lparr>posx = 15, posy = 15\<rparr>, score = 0, highScore = 0, speed = 150, level = 1\<rparr>) \<and>
   (\<exists>s'. moveSnake (16 ## 15 ## sconst 0) (\<lparr>gameState = Playing, snake = [\<lparr>posx = 14, posy = 15\<rparr>], direction = RIGHT,
      food = \<lparr>posx = 15, posy = 15\<rparr>, score = 0, highScore = 0, speed = 150, level = 1\<rparr>) = Some s' \<and> score s' = score (\<lparr>gameState = Playing, snake = [\<lparr>posx = 14, posy = 15\<rparr>], direction = RIGHT,
      food = \<lparr>posx = 15, posy = 15\<rparr>, score = 0, highScore = 0, speed = 150, level = 1\<rparr>) + 1)"
proof -
  let ?s = "(\<lparr>gameState = Playing, snake = [\<lparr>posx = 14, posy = 15\<rparr>], direction = RIGHT,
      food = \<lparr>posx = 15, posy = 15\<rparr>, score = 0, highScore = 0, speed = 150, level = 1\<rparr>)"
  let ?rnd = "16 ## 15 ## sconst (0::int)"
  have fe: "foodEaten ?s"
    by (simp add: foodEaten_def checkCollision_def DIRECTIONS_def GRID_SIZE_def)
  have gen: "generateFood ?rnd (food ?s # snake ?s) = Some \<lparr>posx = 16, posy = 15\<rparr>"
    by (simp add: generateFood_free)
  note th = level_follows_score [OF reachable_before_food, of ?rnd]
  from th fe gen obtain s' where s': "moveSnake ?rnd ?s = Some s'"
    by blast
  with th fe have "score s' = score ?s + 1"
    by blast
  with s' th fe reachable_before_food show ?thesis
    by blast
qed

text \<open>
  C7. In every reachable state the tick interval is the larger of 50 and
  150 - (level - 1) * 10; so it is never below 50.
\<close>

theorem speed_follows_level:
  assumes "reachable s"
  shows "speed s = max 50 (150 - (level s - 1) * 10) \<and> 50 \<le> speed s"
proof -
  have "speed s = max MIN_SPEED (INITIAL_SPEED - (level s - 1) * SPEED_INCREASE)"
    using assms
  proof (rule reachable_invariant)
    show "speed (initialState saved)
        = max MIN_SPEED (INITIAL_SPEED - (level (initialState saved) - 1) * SPEED_INCREASE)"
      for saved
      by (simp add: initialState_def MIN_SPEED_def INITIAL_SPEED_def)
    show "speed (resetGame t)
        = max MIN_SPEED (INITIAL_SPEED - (level (resetGame t) - 1) * SPEED_INCREASE)" for t
      by (simp add: resetGame_def MIN_SPEED_def INITIAL_SPEED_def)
    show "speed t' = max MIN_SPEED (INITIAL_SPEED - (level t' - 1) * SPEED_INCREASE)"
      if "speed t = max MIN_SPEED (INITIAL_SPEED - (level t - 1) * SPEED_INCREASE)"
        "level t' = level t" "speed t' = speed t"
      for t t' :: State
      using that by simp
    show "speed (t\<lparr>snake := sn\<rparr>)
        = max MIN_SPEED (INITIAL_SPEED - (level (t\<lparr>snake := sn\<rparr>) - 1) * SPEED_INCREASE)"
      if "speed t = max MIN_SPEED (INITIAL_SPEED - (level t - 1) * SPEED_INCREASE)"
      for t :: State and sn
      using that by simp
    show "speed (t\<lparr>snake := sn, score := a, food := f, level := l,
            speed := (if l \<noteq> level t
                      then max MIN_SPEED (INITIAL_SPEED - (l - 1) * SPEED_INCREASE)
                      else speed t)\<rparr>)
        = max MIN_SPEED (INITIAL_SPEED
            - (level (t\<lparr>snake := sn, score := a, food := f, level := l,
                 speed := (if l \<noteq> level t
                           then max MIN_SPEED (INITIAL_SPEED - (l - 1) * SPEED_INCREASE)
                           else speed t)\<rparr>) - 1) * SPEED_INCREASE)"
      if "speed t = max MIN_SPEED (INITIAL_SPEED - (level t - 1) * SPEED_INCREASE)"
      for t :: State and sn a f l
      using that by simp
  qed
  then show ?thesis
    by (simp add: MIN_SPEED_def INITIAL_SPEED_def SPEED_INCREASE_def)
qed

theorem speed_follows_level_witness:
  "reachable (\<lparr>gameState = Playing,
      snake = [\<lparr>posx = 19, posy = 15\<rparr>, \<lparr>posx = 18, posy = 15\<rparr>, \<lparr>posx = 17, posy = 15\<rparr>,
               \<lparr>posx = 16, posy = 15\<rparr>, \<lparr>posx = 15, posy = 15\<rparr>, \<lparr>posx = 14, posy = 15\<rparr>],
      direction = RIGHT, food = \<lparr>posx = 3, posy = 4\<rparr>, score = 5, highScore = 0,
      speed = 140, level = 2\<rparr>) \<and>
   speed (\<lparr>gameState = Playing,
      snake = [\<lparr>posx = 19, posy = 15\<rparr>, \<lparr>posx = 18, posy = 15\<rparr>, \<lparr>posx = 17, posy = 15\<rparr>,
               \<lparr>posx = 16, posy = 15\<rparr>, \<lparr>posx = 15, posy = 15\<rparr>, \<lparr>posx = 14, posy = 15\<rparr>],
      direction = RIGHT, food = \<lparr>posx = 3, posy = 4\<rparr>, score = 5, highScore = 0,
      speed = 140, level = 2\<rparr>) = max 50 (150 - (level (\<lparr>gameState = Playing,
      snake = [\<lparr>posx = 19, posy = 15\<rparr>, \<lparr>posx = 18, posy = 15\<rparr>, \<lparr>posx = 17, posy = 15\<rparr>,
               \<lparr>posx = 16, posy = 15\<rparr>, \<lparr>posx = 15, posy = 15\<rparr>, \<lparr>posx = 14, posy = 15\<rparr>],
      direction = RIGHT, food = \<lparr>posx = 3, posy = 4\<rparr>, score = 5, highScore = 0,
      speed = 140, level = 2\<rparr>) - 1) * 10) \<and> 50 \<le> speed (\<lparr>gameState = Playing,
      snake = [\<lparr>posx = 19, posy = 15\<rparr>, \<lparr>posx = 18, posy = 15\<rparr>, \<lparr>posx = 17, posy = 15\<rparr>,
               \<lparr>posx = 16, posy = 15\<rparr>, \<lparr>posx = 15, posy = 15\<rparr>, \<lparr>posx = 14, posy = 15\<rparr>],
      direction = RIGHT, food = \<lparr>posx = 3, posy = 4\<rparr>, score = 5, highScore = 0,
      speed = 140, level = 2\<rparr>) \<and> speed (\<lparr>gameState = Playing,
      snake = [\<lparr>posx = 19, posy = 15\<rparr>, \<lparr>posx = 18, posy = 15\<rparr>, \<lparr>posx = 17, posy = 15\<rparr>,
               \<lparr>posx = 16, posy = 15\<rparr>, \<lparr>posx = 15, posy = 15\<rparr>, \<lparr>posx = 14, posy = 15\<rparr>],
      direction = RIGHT, food = \<lparr>posx = 3, posy = 4\<rparr>, score = 5, highScore = 0,
      speed = 140, level = 2\<rparr>) = 140"
proof -
  have "speed (\<lparr>gameState = Playing,
      snake = [\<lparr>posx = 19, posy = 15\<rparr>, \<lparr>posx = 18, posy = 15\<rparr>, \<lparr>posx = 17, posy = 15\<rparr>,
               \<lparr>posx = 16, posy = 15\<rparr>, \<lparr>posx = 15, posy = 15\<rparr>, \<lparr>posx = 14, posy = 15\<rparr>],
      direction = RIGHT, food = \<lparr>posx = 3, posy = 4\<rparr>, score = 5, highScore = 0,
      speed = 140, level = 2\<rparr>) = 140" by simp
  with reachable_level_two speed_follows_level [OF reachable_level_two] show ?thesis
    by (intro conjI) simp_all
qed

text \<open>
  C8. An event changes the high score only when it is a simulation step that detects a
  terminal collision while the score is strictly greater than the high score; the high
  score then becomes the score. Every other event, and a collision with a score that is
  not greater, leaves it as it was.
\<close>

theorem highScore_only_at_collision:
  assumes "dispatch e s = Some s'"
  shows "highScore s' =
           (if (\<exists>rnd. e = Tick rnd) \<and> terminalCollision s \<and> score s > highScore s
            then score s else highScore s)"
proof (cases "\<exists>rnd. e = Tick rnd \<and> gameState s = Playing")
  case True
  then obtain rnd where e: "e = Tick rnd" and pl: "gameState s = Playing"
    by blast
  from assms e pl have mv: "moveSnake rnd s = Some s'"
    by simp
  show ?thesis
  proof (cases "terminalCollision s")
    case tc: True
    from moveSnake_terminal [OF tc, of rnd] mv e tc show ?thesis
      by auto
  next
    case ntc: False
    from moveSnake_cases [OF pl mv] ntc have "highScore s' = highScore s"
      by auto
    with ntc show ?thesis by simp
  qed
next
  case False
  have ntc: "\<not> ((\<exists>rnd. e = Tick rnd) \<and> terminalCollision s)"
    using False by (auto simp: terminalCollision_def)
  from dispatch_cases [OF assms] False have "highScore s' = highScore s"
    by (auto simp: resetGame_def)
  with ntc show ?thesis by auto
qed

theorem highScore_only_at_collision_witness:
  "dispatch (Tick (sconst 0)) (\<lparr>gameState = Playing, snake = [\<lparr>posx = 0, posy = 7\<rparr>], direction = LEFT,
      food = \<lparr>posx = 15, posy = 15\<rparr>, score = 4, highScore = 2, speed = 150, level = 1\<rparr>) = Some ((\<lparr>gameState = Playing, snake = [\<lparr>posx = 0, posy = 7\<rparr>], direction = LEFT,
      food = \<lparr>posx = 15, posy = 15\<rparr>, score = 4, highScore = 2, speed = 150, level = 1\<rparr>)\<lparr>gameState := GameOver, highScore := 4\<rparr>) \<and>
   terminalCollision (\<lparr>gameState = Playing, snake = [\<lparr>posx = 0, posy = 7\<rparr>], direction = LEFT,
      food = \<lparr>posx = 15, posy = 15\<rparr>, score = 4, highScore = 2, speed = 150, level = 1\<rparr>) \<and> highScore (\<lparr>gameState = Playing, snake = [\<lparr>posx = 0, posy = 7\<rparr>], direction = LEFT,
      food = \<lparr>posx = 15, posy = 15\<rparr>, score = 4, highScore = 2, speed = 150, level = 1\<rparr>) < score (\<lparr>gameState = Playing, snake = [\<lparr>posx = 0, posy = 7\<rparr>], direction = LEFT,
      food = \<lparr>posx = 15, posy = 15\<rparr>, score = 4, highScore = 2, speed = 150, level = 1\<rparr>) \<and>
   highScore ((\<lparr>gameState = Playing, snake = [\<lparr>posx = 0, posy = 7\<rparr>], direction = LEFT,
      food = \<lparr>posx = 15, posy = 15\<rparr>, score = 4, highScore = 2, speed = 150, level = 1\<rparr>)\<lparr>gameState := GameOver, highScore := 4\<rparr>) = score (\<lparr>gameState = Playing, snake = [\<lparr>posx = 0, posy = 7\<rparr>], direction = LEFT,
      food = \<lparr>posx = 15, posy = 15\<rparr>, score = 4, highScore = 2, speed = 150, level = 1\<rparr>)"
proof -
  have tc: "terminalCollision (\<lparr>gameState = Playing, snake = [\<lparr>posx = 0, posy = 7\<rparr>], direction = LEFT,
      food = \<lparr>posx = 15, posy = 15\<rparr>, score = 4, highScore = 2, speed = 150, level = 1\<rparr>)"
    by (simp add: terminalCollision_def checkCollision_def DIRECTIONS_def GRID_SIZE_def)
  have d: "dispatch (Tick (sconst 0)) (\<lparr>gameState = Playing, snake = [\<lparr>posx = 0, posy = 7\<rparr>], direction = LEFT,
      food = \<lparr>posx = 15, posy = 15\<rparr>, score = 4, highScore = 2, speed = 150, level = 1\<rparr>) = Some ((\<lparr>gameState = Playing, snake = [\<lparr>posx = 0, posy = 7\<rparr>], direction = LEFT,
      food = \<lparr>posx = 15, posy = 15\<rparr>, score = 4, highScore = 2, speed = 150, level = 1\<rparr>)\<lparr>gameState := GameOver, highScore := 4\<rparr>)"
    by (simp add: moveSnake_def checkCollision_def DIRECTIONS_def GRID_SIZE_def)
  from highScore_only_at_collision [OF d] tc
  have "highScore ((\<lparr>gameState = Playing, snake = [\<lparr>posx = 0, posy = 7\<rparr>], direction = LEFT,
      food = \<lparr>posx = 15, posy = 15\<rparr>, score = 4, highScore = 2, speed = 150, level = 1\<rparr>)\<lparr>gameState := GameOver, highScore := 4\<rparr>) = score (\<lparr>gameState = Playing, snake = [\<lparr>posx = 0, posy = 7\<rparr>], direction = LEFT,
      food = \<lparr>posx = 15, posy = 15\<rparr>, score = 4, highScore = 2, speed = 150, level = 1\<rparr>)"
    by simp
  with d tc show ?thesis by simp
qed

end
